theory Spec2Isabelle
  imports Main
begin

section \<open>Documents of the database\<close>

text \<open>
  The server keeps its state in MongoDB collections (Mongoose models \<open>Centre\<close>, \<open>User\<close>,
  \<open>Place\<close>, \<open>Candidat\<close>). A collection is modelled as the list of its documents, a
  document as a record of the fields the controllers read, an \<open>ObjectId\<close> as a string and
  a JavaScript \<open>Date\<close> as its number of milliseconds since the epoch.
\<close>

type_synonym objectId = string
type_synonym jsDate = int

record centre_doc =
  centre_id :: objectId
  nom :: string
  departement :: string
  active :: bool

record user_doc =
  user_id :: objectId
  email :: string
  departements :: "string list"

text \<open>
  An archived booking, as the tests of \<open>archivePlace\<close> read it back from
  \<open>candidat.places\<close> (candidat.queries.spec.js, lines 544-628).
\<close>

datatype archiveReason = REASON_CANCEL | REASON_EXAM_FAILED | REASON_REMOVE_RESA_ADMIN

record archived_place =
  archived_id :: objectId
  archived_date :: jsDate
  archived_centre :: objectId
  archived_inspecteur :: objectId
  archivedAt :: jsDate
  archiveReason :: archiveReason
  byUser :: "string option"

record candidat_doc =
  candidat_id :: objectId
  codeNeph :: string
  nomNaissance :: string
  places :: "archived_place list"

record place_doc =
  place_id :: objectId
  centre :: objectId
  inspecteur :: objectId
  date :: jsDate
  candidat :: "objectId option"

record db =
  Centre :: "centre_doc list"
  User :: "user_doc list"
  Place :: "place_doc list"
  Candidat :: "candidat_doc list"

section \<open>Errors thrown by the business functions\<close>

text \<open>
  \<open>centre-business.js\<close> throws \<open>new Error(message)\<close> after setting \<open>error.status\<close>.
  The messages are kept as constructors (the French texts are in the source):
  \<^item> \<open>Centre_introuvable\<close>: 'Centre introuvable' (404);
  \<^item> \<open>Pas_acces_a_ce_centre\<close>: "Vous n'avez pas acces a ce centre" (403);
  \<^item> \<open>Centre_possede_des_places_a_venir\<close>: 'Le centre possede des places a venir,
    il ne peut pas etre archive.' (409).
  Reading \<open>user.departements\<close> when \<open>findUserById\<close> gave \<open>null\<close> throws a
  \<open>TypeError\<close>, which carries no status.
\<close>

datatype error_message =
  Centre_introuvable | Pas_acces_a_ce_centre | Centre_possede_des_places_a_venir

datatype js_error = Error error_message nat | TypeError

section \<open>Queries of the models used by \<open>updateCentreStatus\<close>\<close>

text \<open>
  Modelled from the spec: the query helpers \<open>findCentreById\<close>, \<open>findUserById\<close>,
  \<open>findAllPlacesByCentre\<close> and \<open>updateCentreActiveState\<close> are imported from
  \<open>models/centre\<close>, \<open>models/user\<close> and \<open>models/place\<close>, which are not among the
  sources. They are modelled from their call sites in \<open>centre-business.js\<close>: a lookup by
  \<open>_id\<close> gives the document or \<open>null\<close>; \<open>findAllPlacesByCentre(centreId, beginDate,
  endDate)\<close> gives the places of the centre, restricted to the dates when a bound is
  passed (\<open>findCentresWithPlaces\<close> passes both, \<open>updateCentreStatus\<close> passes none);
  \<open>updateCentreActiveState(centre, status, email)\<close> stores the active flag of the centre
  (the spec's Centre has an "active flag" set by admins) and returns the stored document.
\<close>

definition findCentreById :: "objectId \<Rightarrow> db \<Rightarrow> centre_doc option" where
  "findCentreById cid d = find (\<lambda>c. centre_id c = cid) (Centre d)"

definition findUserById :: "objectId \<Rightarrow> db \<Rightarrow> user_doc option" where
  "findUserById uid d = find (\<lambda>u. user_id u = uid) (User d)"

definition findAllPlacesByCentre ::
  "objectId \<Rightarrow> jsDate option \<Rightarrow> jsDate option \<Rightarrow> db \<Rightarrow> place_doc list" where
  "findAllPlacesByCentre cid beginDate endDate d =
     filter (\<lambda>p. centre p = cid
                \<and> (case beginDate of None \<Rightarrow> True | Some b \<Rightarrow> b \<le> date p)
                \<and> (case endDate of None \<Rightarrow> True | Some e \<Rightarrow> date p < e))
       (Place d)"

definition updateCentreActiveState ::
  "centre_doc \<Rightarrow> bool \<Rightarrow> string \<Rightarrow> db \<Rightarrow> centre_doc \<times> db" where
  "updateCentreActiveState c status byEmail d =
     (let c' = c\<lparr>active := status\<rparr>
      in (c', d\<lparr>Centre := map (\<lambda>x. if centre_id x = centre_id c then c' else x) (Centre d)\<rparr>))"

section \<open>\<open>updateCentreStatus\<close> (centre-business.js)\<close>

text \<open>
  \<open>updateCentreStatus(id, status, userId)\<close> is in the part of
  \<open>src/routes/candidat/departements-controllers.js\<close> that holds \<open>centre-business.js\<close>
  (lines 261-295); its parameter \<open>id\<close> is written \<open>cid\<close> here.
  The function returns the updated centre or throws; the model returns the outcome
  together with the database after the call, so that a throw visibly leaves it as it was.
  The steps are those of the source, in its order: centre not found (404), the user's
  departements do not include the centre's (403), the centre has places and the wanted
  status is \<open>false\<close> (409), else the update.
\<close>

definition updateCentreStatus ::
  "objectId \<Rightarrow> bool \<Rightarrow> objectId \<Rightarrow> db \<Rightarrow> (js_error + centre_doc) \<times> db" where
  "updateCentreStatus cid status userId d =
     (case findCentreById cid d of
        None \<Rightarrow> (Inl (Error Centre_introuvable 404), d)
      | Some c \<Rightarrow>
          (case findUserById userId d of
             None \<Rightarrow> (Inl TypeError, d)
           | Some u \<Rightarrow>
               if departement c \<notin> set (departements u)
               then (Inl (Error Pas_acces_a_ce_centre 403), d)
               else
                 let places = findAllPlacesByCentre cid None None d
                 in if length places \<noteq> 0 \<and> \<not> status
                    then (Inl (Error Centre_possede_des_places_a_venir 409), d)
                    else (case updateCentreActiveState c status (email u) d of
                            (updatedCentre, d') \<Rightarrow> (Inr updatedCentre, d'))))"

text \<open>
  A database used to run \<open>updateCentreStatus\<close>: one active centre of departement 93, an
  admin of that departement, and one place of the centre dated after the instant 1000.
\<close>

definition db_centre_example :: db where
  "db_centre_example =
     \<lparr>Centre = [\<lparr>centre_id = ''c1'', nom = ''Bobigny'', departement = ''93'', active = True\<rparr>],
      User = [\<lparr>user_id = ''u1'', email = ''admin@example.com'', departements = [''93'']\<rparr>],
      Place = [\<lparr>place_id = ''p1'', centre = ''c1'', inspecteur = ''i1'', date = 2000,
                candidat = None\<rparr>],
      Candidat = []\<rparr>"

section \<open>\<open>removeReservationByAdmin\<close> (routes/admin/places-controllers.js)\<close>

text \<open>
  The Express request carries the optional route parameter \<open>req.params.id\<close> and the
  \<open>req.userId\<close> set by the token middleware. The response is the status code and the
  JSON body: \<open>success\<close>, a \<open>message\<close> and, on success, the fields of the business
  function's result spread into the body. The messages are kept as constructors:
  \<open>Utilisateur_non_trouve\<close> and \<open>Place_non_trouvee\<close> are the two literals of the source,
  \<open>PLACE_IS_NOT_BOOKED\<close> and \<open>UNKNOWN_ERROR_REMOVE_RESA\<close> are constants imported from
  \<open>./message.constants\<close>. The calls of \<open>appLogger\<close> write to the log only and are left out.
\<close>

record request =
  params_id :: "objectId option"
  userId :: objectId

datatype response_message =
  Utilisateur_non_trouve | Place_non_trouvee | PLACE_IS_NOT_BOOKED | UNKNOWN_ERROR_REMOVE_RESA

record remove_result =
  statusmail :: bool
  result_message :: string

record response =
  statusCode :: nat
  success :: bool
  message :: "response_message option"
  result :: "remove_result option"

text \<open>
  Modelled from the spec: \<open>findCandidatById\<close> and \<open>findPlaceByIdAndPopulate\<close> are imported
  from \<open>models/candidat\<close> and \<open>models/place\<close>, which are not among the sources. A
  lookup by \<open>_id\<close> gives the document or \<open>null\<close>; with \<open>{ candidat: true }\<close> the place
  comes back with its \<open>candidat\<close> reference replaced by the candidate's document, which is
  \<open>null\<close> when the place holds no reference or the referenced candidate is gone.
\<close>

definition findCandidatById :: "objectId \<Rightarrow> db \<Rightarrow> candidat_doc option" where
  "findCandidatById cid d = find (\<lambda>c. candidat_id c = cid) (Candidat d)"

definition findPlaceByIdAndPopulate ::
  "objectId \<Rightarrow> db \<Rightarrow> (place_doc \<times> candidat_doc option) option" where
  "findPlaceByIdAndPopulate pid d =
     (case find (\<lambda>p. place_id p = pid) (Place d) of
        None \<Rightarrow> None
      | Some p \<Rightarrow>
          Some (p, case candidat p of None \<Rightarrow> None | Some c \<Rightarrow> findCandidatById c d))"

text \<open>
  The controller (lines 623-702). \<open>removeReservationPlaceByAdmin\<close> is imported from
  \<open>./places-business\<close>, which is not among the sources: it is a parameter of the model,
  a function of the place, the candidate, the admin and the database that either throws
  (\<open>Inl\<close>) or returns its result (\<open>Inr\<close>), with the database it leaves. The checks are
  those of the source, in its order: admin not found (404), no id (404), place not found
  (404), place without candidate (400), else the removal (200, or 500 when it throws).
\<close>

definition removeReservationByAdmin ::
  "(place_doc \<Rightarrow> candidat_doc \<Rightarrow> user_doc \<Rightarrow> db \<Rightarrow> (unit + remove_result) \<times> db) \<Rightarrow>
   request \<Rightarrow> db \<Rightarrow> response \<times> db" where
  "removeReservationByAdmin removeReservationPlaceByAdmin req d =
     (case findUserById (userId req) d of
        None \<Rightarrow>
          (\<lparr>statusCode = 404, success = False, message = Some Utilisateur_non_trouve,
            result = None\<rparr>, d)
      | Some admin \<Rightarrow>
          (case params_id req of
             None \<Rightarrow>
               (\<lparr>statusCode = 404, success = False, message = Some Place_non_trouvee,
                 result = None\<rparr>, d)
           | Some pid \<Rightarrow>
               if pid = [] then
                 (\<lparr>statusCode = 404, success = False, message = Some Place_non_trouvee,
                   result = None\<rparr>, d)
               else
                 (case findPlaceByIdAndPopulate pid d of
                    None \<Rightarrow>
                      (\<lparr>statusCode = 404, success = False, message = Some Place_non_trouvee,
                        result = None\<rparr>, d)
                  | Some (place, None) \<Rightarrow>
                      (\<lparr>statusCode = 400, success = False, message = Some PLACE_IS_NOT_BOOKED,
                        result = None\<rparr>, d)
                  | Some (place, Some cand) \<Rightarrow>
                      (case removeReservationPlaceByAdmin place cand admin d of
                         (Inr r, d') \<Rightarrow>
                           (\<lparr>statusCode = 200, success = True, message = None,
                             result = Some r\<rparr>, d')
                       | (Inl _, d') \<Rightarrow>
                           (\<lparr>statusCode = 500, success = False,
                             message = Some UNKNOWN_ERROR_REMOVE_RESA, result = None\<rparr>, d')))))"

text \<open>
  Modelled from the spec: \<open>archivePlace\<close> (models/candidat/candidat.queries.js) and
  \<open>removeReservationPlaceByAdmin\<close> (routes/admin/places-business.js) are not among the
  sources. \<open>archivePlace(candidat, place, reason, byUser)\<close> appends to \<open>candidat.places\<close>
  the place's \<open>_id\<close>, \<open>date\<close>, \<open>centre\<close> and \<open>inspecteur\<close> with the reason, the user
  and the instant of archiving, as its tests read them back (candidat.queries.spec.js,
  lines 544-628). The admin removal follows the spec's cancellation: it releases the
  slot, archives it for the candidate with the reason \<open>REASON_REMOVE_RESA_ADMIN\<close> and the
  admin's e-mail, and does not throw. It stands for the parameter of
  \<open>removeReservationByAdmin\<close> where a run needs a concrete function.
\<close>

definition archivePlace ::
  "jsDate \<Rightarrow> candidat_doc \<Rightarrow> place_doc \<Rightarrow> archiveReason \<Rightarrow> string option \<Rightarrow> candidat_doc" where
  "archivePlace now c p reason by_user =
     c\<lparr>places := places c @
        [\<lparr>archived_id = place_id p, archived_date = date p, archived_centre = centre p,
          archived_inspecteur = inspecteur p, archivedAt = now, archiveReason = reason,
          byUser = by_user\<rparr>]\<rparr>"

definition removeReservationPlaceByAdmin ::
  "jsDate \<Rightarrow> place_doc \<Rightarrow> candidat_doc \<Rightarrow> user_doc \<Rightarrow> db \<Rightarrow> (unit + remove_result) \<times> db" where
  "removeReservationPlaceByAdmin now place cand admin d =
     (Inr \<lparr>statusmail = True, result_message = []\<rparr>,
      d\<lparr>Place := map (\<lambda>p. if place_id p = place_id place then p\<lparr>candidat := None\<rparr> else p)
                    (Place d),
        Candidat := map (\<lambda>c. if candidat_id c = candidat_id cand
                               then archivePlace now c place REASON_REMOVE_RESA_ADMIN
                                      (Some (email admin))
                               else c) (Candidat d)\<rparr>)"

text \<open>
  A database for the runs: the admin \<open>u1\<close>, the candidate \<open>k1\<close> with an empty archive
  and no booking, the candidate \<open>k2\<close> who holds the place \<open>p2\<close>, and the free place
  \<open>p1\<close>.
\<close>

definition db_resa_example :: db where
  "db_resa_example =
     \<lparr>Centre = [\<lparr>centre_id = ''c1'', nom = ''Bobigny'', departement = ''93'', active = True\<rparr>],
      User = [\<lparr>user_id = ''u1'', email = ''admin@example.com'', departements = [''93'']\<rparr>],
      Place = [\<lparr>place_id = ''p1'', centre = ''c1'', inspecteur = ''i1'', date = 2000,
                candidat = None\<rparr>,
               \<lparr>place_id = ''p2'', centre = ''c1'', inspecteur = ''i1'', date = 3000,
                candidat = Some ''k2''\<rparr>],
      Candidat = [\<lparr>candidat_id = ''k1'', codeNeph = ''123456789012'', nomNaissance = ''DUPONT'',
                   places = []\<rparr>,
                  \<lparr>candidat_id = ''k2'', codeNeph = ''123456789013'', nomNaissance = ''DUPOND'',
                   places = []\<rparr>]\<rparr>"


section \<open>Properties of \<open>updateCentreStatus\<close>\<close>

lemma find_map_replace:
  "find (\<lambda>x. centre_id x = centre_id c) xs = Some c \<Longrightarrow>
   find (\<lambda>x. centre_id x = centre_id c)
     (map (\<lambda>x. if centre_id x = centre_id c then c\<lparr>active := s\<rparr> else x) xs) =
   Some (c\<lparr>active := s\<rparr>)"
  by (induction xs) (auto split: if_splits)

lemma findCentreById_id: "findCentreById cid d = Some c \<Longrightarrow> centre_id c = cid"
  by (auto simp: findCentreById_def find_Some_iff)

lemma updateCentreStatus_without_places:
  assumes "findCentreById cid d = Some c" and "findUserById uid d = Some u"
    and "departement c \<in> set (departements u)"
    and "\<forall>p \<in> set (Place d). centre p \<noteq> cid"
  shows "fst (updateCentreStatus cid False uid d) = Inr (c\<lparr>active := False\<rparr>)"
proof -
  have "findAllPlacesByCentre cid None None d = []"
    using assms(4) by (auto simp: findAllPlacesByCentre_def filter_empty_conv)
  then show ?thesis
    using assms(1-3) by (simp add: updateCentreStatus_def updateCentreActiveState_def Let_def)
qed

text \<open>
  Claim C9. A centre that owns at least one future place (a place of the centre dated
  after \<open>now\<close>) cannot be deactivated: \<open>updateCentreStatus(id, false, userId)\<close> throws and the
  database, hence the centre's active flag, is as before; when the centre is found and
  the user has access to its departement the error is the 409 of the source. Conversely,
  when the deactivation returns a centre, no place of the centre is dated after \<open>now\<close>,
  the returned centre is inactive and it is the centre now stored under that id.
  (The source asks \<open>findAllPlacesByCentre(id)\<close> without dates, so any place of the centre
  blocks the deactivation, the future ones among them.)
\<close>

theorem updateCentreStatus_future_places:
  "((\<exists>p \<in> set (Place d). centre p = cid \<and> now < date p) \<longrightarrow>
      (\<exists>e. updateCentreStatus cid False uid d = (Inl e, d)) \<and>
      (\<forall>c u. findCentreById cid d = Some c \<longrightarrow> findUserById uid d = Some u \<longrightarrow>
             departement c \<in> set (departements u) \<longrightarrow>
             updateCentreStatus cid False uid d =
               (Inl (Error Centre_possede_des_places_a_venir 409), d)))
   \<and> (\<forall>c'. fst (updateCentreStatus cid False uid d) = Inr c' \<longrightarrow>
          (\<forall>p \<in> set (Place d). centre p = cid \<longrightarrow> date p \<le> now) \<and>
          active c' = False \<and>
          findCentreById cid (snd (updateCentreStatus cid False uid d)) = Some c')"
proof (intro conjI impI allI)
  assume fut: "\<exists>p \<in> set (Place d). centre p = cid \<and> now < date p"
  then have ne: "findAllPlacesByCentre cid None None d \<noteq> []"
    by (auto simp: findAllPlacesByCentre_def filter_empty_conv)
  then show "\<exists>e. updateCentreStatus cid False uid d = (Inl e, d)"
    by (auto simp: updateCentreStatus_def Let_def split: option.splits)
  fix c u
  assume "findCentreById cid d = Some c" "findUserById uid d = Some u"
    "departement c \<in> set (departements u)"
  with ne show "updateCentreStatus cid False uid d =
               (Inl (Error Centre_possede_des_places_a_venir 409), d)"
    by (simp add: updateCentreStatus_def Let_def)
next
  fix c'
  assume ok: "fst (updateCentreStatus cid False uid d) = Inr c'"
  then have emp: "findAllPlacesByCentre cid None None d = []"
    by (auto simp: updateCentreStatus_def Let_def split: option.splits if_splits)
  then show "\<forall>p \<in> set (Place d). centre p = cid \<longrightarrow> date p \<le> now"
    by (auto simp: findAllPlacesByCentre_def filter_empty_conv)
  from ok obtain c u where c: "findCentreById cid d = Some c"
    and u: "findUserById uid d = Some u"
    and dep: "departement c \<in> set (departements u)"
    by (auto simp: updateCentreStatus_def Let_def split: option.splits if_splits)
  from ok c u dep emp have c': "c' = c\<lparr>active := False\<rparr>"
    and d': "snd (updateCentreStatus cid False uid d) =
       d\<lparr>Centre := map (\<lambda>x. if centre_id x = centre_id c then c\<lparr>active := False\<rparr> else x)
                      (Centre d)\<rparr>"
    by (auto simp: updateCentreStatus_def updateCentreActiveState_def Let_def)
  show "active c' = False" by (simp add: c')
  have cid: "centre_id c = cid" using c by (rule findCentreById_id)
  show "findCentreById cid (snd (updateCentreStatus cid False uid d)) = Some c'"
    using c find_map_replace[of c "Centre d" False] unfolding d' c'
    by (simp add: findCentreById_def cid)
qed

text \<open>
  The theorem at \<open>db_centre_example\<close> with \<open>now = 1000\<close>: the place dated 2000 blocks the
  deactivation with the 409 error; once the place is gone the deactivation returns the
  centre, inactive.
\<close>

theorem updateCentreStatus_future_places_witness:
  "updateCentreStatus ''c1'' False ''u1'' db_centre_example =
     (Inl (Error Centre_possede_des_places_a_venir 409), db_centre_example)
   \<and> fst (updateCentreStatus ''c1'' False ''u1'' (db_centre_example\<lparr>Place := []\<rparr>)) =
       Inr \<lparr>centre_id = ''c1'', nom = ''Bobigny'', departement = ''93'', active = False\<rparr>
   \<and> findCentreById ''c1''
         (snd (updateCentreStatus ''c1'' False ''u1'' (db_centre_example\<lparr>Place := []\<rparr>))) =
       Some \<lparr>centre_id = ''c1'', nom = ''Bobigny'', departement = ''93'', active = False\<rparr>"
proof -
  have fut: "\<exists>p \<in> set (Place db_centre_example). centre p = ''c1'' \<and> (1000::int) < date p"
    by (simp add: db_centre_example_def)
  have c: "findCentreById ''c1'' db_centre_example =
      Some \<lparr>centre_id = ''c1'', nom = ''Bobigny'', departement = ''93'', active = True\<rparr>"
    by (simp add: findCentreById_def db_centre_example_def)
  have u: "findUserById ''u1'' db_centre_example =
      Some \<lparr>user_id = ''u1'', email = ''admin@example.com'', departements = [''93'']\<rparr>"
    by (simp add: findUserById_def db_centre_example_def)
  have blocked: "updateCentreStatus ''c1'' False ''u1'' db_centre_example =
     (Inl (Error Centre_possede_des_places_a_venir 409), db_centre_example)"
    using updateCentreStatus_future_places [of db_centre_example "''c1''" 1000 "''u1''"] fut c u
    by simp
  have ok: "fst (updateCentreStatus ''c1'' False ''u1'' (db_centre_example\<lparr>Place := []\<rparr>)) =
       Inr \<lparr>centre_id = ''c1'', nom = ''Bobigny'', departement = ''93'', active = False\<rparr>"
    by (simp add: updateCentreStatus_def findCentreById_def findUserById_def
        findAllPlacesByCentre_def updateCentreActiveState_def db_centre_example_def Let_def)
  show ?thesis
    using blocked ok
      updateCentreStatus_future_places [of "db_centre_example\<lparr>Place := []\<rparr>" "''c1''" 1000 "''u1''"]
    by simp
qed

section \<open>Properties of \<open>removeReservationByAdmin\<close>\<close>

text \<open>
  Claim C7, as the source has it. Removing the reservation of a place that holds no
  booking (the place exists and its populated \<open>candidat\<close> is \<open>null\<close>) changes nothing:
  the database after the call is the database before it, so no slot is released and no
  archive entry is written; doing it a second time gives the same answer and the same
  database. The answer, however, is not a success: the controller replies with status
  400, \<open>success: false\<close> and the message \<open>PLACE_IS_NOT_BOOKED\<close>. This holds whatever the
  business function \<open>removeReservationPlaceByAdmin\<close> does, since it is not called.
\<close>

theorem removeReservationByAdmin_place_not_booked:
  assumes "findUserById (userId req) d = Some admin"
    and "params_id req = Some pid" and "pid \<noteq> []"
    and "findPlaceByIdAndPopulate pid d = Some (place, None)"
  shows "removeReservationByAdmin rm req d =
           (\<lparr>statusCode = 400, success = False, message = Some PLACE_IS_NOT_BOOKED,
             result = None\<rparr>, d)
       \<and> removeReservationByAdmin rm req (snd (removeReservationByAdmin rm req d)) =
           (\<lparr>statusCode = 400, success = False, message = Some PLACE_IS_NOT_BOOKED,
             result = None\<rparr>, d)"
proof -
  have once: "removeReservationByAdmin rm req d =
           (\<lparr>statusCode = 400, success = False, message = Some PLACE_IS_NOT_BOOKED,
             result = None\<rparr>, d)"
    using assms by (simp add: removeReservationByAdmin_def)
  then show ?thesis by simp
qed

text \<open>
  The theorem at \<open>db_resa_example\<close>: the admin \<open>u1\<close> asks twice to remove the reservation
  of the free place \<open>p1\<close>; the business function is the modelled admin removal.
\<close>

theorem removeReservationByAdmin_place_not_booked_witness:
  "removeReservationByAdmin (removeReservationPlaceByAdmin 1000)
       \<lparr>params_id = Some ''p1'', userId = ''u1''\<rparr>
       (snd (removeReservationByAdmin (removeReservationPlaceByAdmin 1000)
               \<lparr>params_id = Some ''p1'', userId = ''u1''\<rparr> db_resa_example)) =
     (\<lparr>statusCode = 400, success = False, message = Some PLACE_IS_NOT_BOOKED, result = None\<rparr>,
      db_resa_example)"
proof -
  have u: "findUserById (userId \<lparr>params_id = Some ''p1'', userId = ''u1''\<rparr>) db_resa_example =
      Some \<lparr>user_id = ''u1'', email = ''admin@example.com'', departements = [''93'']\<rparr>"
    by (simp add: findUserById_def db_resa_example_def)
  have p: "findPlaceByIdAndPopulate ''p1'' db_resa_example =
      Some (\<lparr>place_id = ''p1'', centre = ''c1'', inspecteur = ''i1'', date = 2000,
              candidat = None\<rparr>, None)"
    by (simp add: findPlaceByIdAndPopulate_def db_resa_example_def)
  show ?thesis
    using removeReservationByAdmin_place_not_booked
      [where rm = "removeReservationPlaceByAdmin 1000", OF u _ _ p]
    by simp
qed

text \<open>
  The claim as stated fails on the code: for the candidate-less place \<open>p1\<close> the call does
  not return without error, it answers 400 with \<open>success: false\<close>. (For the booked place
  \<open>p2\<close> the same controller answers 200.)
\<close>

theorem removeReservationByAdmin_no_booking_counterexample:
  "fst (removeReservationByAdmin (removeReservationPlaceByAdmin 1000)
          \<lparr>params_id = Some ''p1'', userId = ''u1''\<rparr> db_resa_example) =
     \<lparr>statusCode = 400, success = False, message = Some PLACE_IS_NOT_BOOKED, result = None\<rparr>
   \<and> statusCode (fst (removeReservationByAdmin (removeReservationPlaceByAdmin 1000)
          \<lparr>params_id = Some ''p2'', userId = ''u1''\<rparr> db_resa_example)) = 200"
  by (simp add: removeReservationByAdmin_def removeReservationPlaceByAdmin_def
      findUserById_def findPlaceByIdAndPopulate_def findCandidatById_def db_resa_example_def)

end
